theory Spec2Isabelle
  imports Complex_Main "HOL-Library.Sublist"
begin

section \<open>Python values used by the pipeline\<close>

text \<open>
  A Python \<open>str\<close> is a sequence of code points; it is modelled as a \<open>string\<close>, each
  \<open>char\<close> standing for one code point below 256. An exception is a value carrying the
  text that \<open>str(e)\<close> returns. Floats are modelled by exact rationals.
\<close>

datatype py_exception = PyException (message: string)

text \<open>\<open>str.isspace\<close> on the code points below 256: tab to carriage return, the four
  separators 0x1C to 0x1F, space, NEL (0x85) and the no-break space (0xA0).\<close>

definition isspace :: "char \<Rightarrow> bool" where
  "isspace c = (let n = (of_char c :: nat) in
     (9 \<le> n \<and> n \<le> 13) \<or> (28 \<le> n \<and> n \<le> 32) \<or> n = 133 \<or> n = 160)"

text \<open>\<open>s.strip()\<close>: drop the whitespace at both ends.\<close>

definition strip :: "string \<Rightarrow> string" where
  "strip s = rev (dropWhile isspace (rev (dropWhile isspace s)))"

text \<open>\<open>str(n)\<close> for a non-negative integer: its decimal digits.\<close>

definition digit_char :: "nat \<Rightarrow> char" where
  "digit_char d = char_of (48 + d)"

fun str_nat :: "nat \<Rightarrow> string" where
  "str_nat n = (if n < 10 then [digit_char n] else str_nat (n div 10) @ [digit_char (n mod 10)])"

declare str_nat.simps [simp del]

text \<open>\<open>sep.join(parts)\<close>.\<close>

fun join :: "string \<Rightarrow> string list \<Rightarrow> string" where
  "join sep [] = []"
| "join sep [x] = x"
| "join sep (x # y # ys) = x @ sep @ join sep (y # ys)"

text \<open>\<open>round(x, 3)\<close>: the nearest multiple of 1/1000, a tie going to the even
  neighbour.\<close>

definition round_half_even :: "rat \<Rightarrow> int" where
  "round_half_even x = (let f = \<lfloor>x\<rfloor>; r = x - of_int f in
     if r < 1/2 then f else if 1/2 < r then f + 1 else if even f then f else f + 1)"

definition py_round3 :: "rat \<Rightarrow> rat" where
  "py_round3 x = of_int (round_half_even (x * 1000)) / 1000"

text \<open>
  An entry of a Python dict read with \<open>d.get(key, default)\<close>: the key may be absent
  (the default is returned), present with the value \<open>None\<close>, or present with a value.
  The result is \<open>None\<close> for Python's \<open>None\<close>.
\<close>

datatype 'a entry = Missing | PyNone | Val 'a

fun dict_get :: "'a entry \<Rightarrow> 'a \<Rightarrow> 'a option" where
  "dict_get Missing dflt = Some dflt"
| "dict_get PyNone dflt = None"
| "dict_get (Val v) dflt = Some v"

section \<open>The retrieval pipeline (rag\_pipeline.py)\<close>

type_synonym embedding = "rat list"
type_synonym chunk_metadata = "(string \<times> string) list"

text \<open>One element of the list returned by \<open>vectorstore.search\<close>: a dict with the keys
  \<open>document\<close>, \<open>distance\<close>, \<open>metadata\<close> and \<open>id\<close>.\<close>

record search_result =
  document :: "string entry"
  distance :: "rat entry"
  metadata :: "chunk_metadata entry"
  rid :: "string entry"

text \<open>An element of \<open>sources\<close>; \<open>src_metadata\<close> is \<open>None\<close> when the search result
  carried Python's \<open>None\<close>.\<close>

record source_passage =
  passage_text :: string
  similarity :: rat
  src_metadata :: "chunk_metadata option"

text \<open>The dict returned by \<open>query\<close>; its \<open>metadata\<close> dict is kept as the list of its
  items.\<close>

record query_result =
  answer :: string
  sources :: "source_passage list"
  result_metadata :: "(string \<times> int) list"

text \<open>
  The collaborators of the pipeline are arbitrary objects: each call returns a value or
  raises. \<open>generate_embeddings\<close> returns a list of vectors or \<open>None\<close>, \<open>search\<close> a list of
  results, \<open>generate_answer\<close> a string or \<open>None\<close>; \<open>store_count\<close> and \<open>store_add\<close> are
  the vector store's \<open>get_collection_count\<close> and \<open>add_documents\<close>.
\<close>

record pipeline =
  generate_embeddings :: "string list \<Rightarrow> py_exception + embedding list option"
  search :: "embedding \<Rightarrow> int \<Rightarrow> py_exception + search_result list"
  generate_answer :: "string \<Rightarrow> string \<Rightarrow> int \<Rightarrow> py_exception + string option"
  store_count :: "py_exception + nat"
  store_add :: "string list \<Rightarrow> embedding list \<Rightarrow> chunk_metadata list option \<Rightarrow>
                string list option \<Rightarrow> py_exception + bool"
  top_k :: int

text \<open>The calls the pipeline makes on its collaborators, in order. The Streamlit calls
  (\<open>st.spinner\<close>, \<open>st.error\<close>) only draw on the page and are left out.\<close>

datatype call =
    EmbedCall "string list"
  | SearchCall embedding int
  | GenerateCall string string int
  | CountCall
  | AddDocumentsCall "string list" "embedding list" "chunk_metadata list option"
      "string list option"

fun is_generate_call :: "call \<Rightarrow> bool" where
  "is_generate_call (GenerateCall q c m) = True"
| "is_generate_call _ = False"

text \<open>The body of the loop over \<open>enumerate(search_results, 1)\<close>: the context part and the
  source built from one result. \<open>len(doc_text)\<close> raises a \<open>TypeError\<close> when the document
  is \<open>None\<close>.\<close>

definition none_len_error :: py_exception where
  "none_len_error = PyException ''object of type 'NoneType' has no len()''"

definition build_source ::
  "nat \<Rightarrow> search_result \<Rightarrow> py_exception + (string \<times> source_passage)" where
  "build_source i result =
    (let doc_text = dict_get (document result) [];
         dist = dict_get (distance result) 0;
         meta = dict_get (metadata result) [];
         sim = (case dist of Some x \<Rightarrow> 1 - x | None \<Rightarrow> 0)
     in case doc_text of
          None \<Rightarrow> Inl none_len_error
        | Some d \<Rightarrow>
            Inr (''[Source '' @ str_nat i @ ''] '' @ d,
                 \<lparr>passage_text = (if length d > 200 then take 200 d @ ''...'' else d),
                  similarity = py_round3 sim,
                  src_metadata = meta\<rparr>))"

fun assemble ::
  "nat \<Rightarrow> search_result list \<Rightarrow> py_exception + (string list \<times> source_passage list)" where
  "assemble i [] = Inr ([], [])"
| "assemble i (result # rest) =
    (case build_source i result of
       Inl e \<Rightarrow> Inl e
     | Inr (part, src) \<Rightarrow>
         (case assemble (Suc i) rest of
            Inl e \<Rightarrow> Inl e
          | Inr (parts, srcs) \<Rightarrow> Inr (part # parts, src # srcs)))"

definition diagnostic :: "string \<Rightarrow> query_result" where
  "diagnostic msg = \<lparr>answer = msg, sources = [], result_metadata = []\<rparr>"

definition blank :: "string \<Rightarrow> bool" where
  "blank question = (question = [] \<or> strip question = [])"

text \<open>The body of the \<open>try\<close> block of \<open>query\<close>: its outcome (a returned dict or a raised
  exception) and the calls made.\<close>

definition query_try ::
  "pipeline \<Rightarrow> string \<Rightarrow> int \<Rightarrow> (py_exception + query_result) \<times> call list" where
  "query_try p question max_tokens =
    (case generate_embeddings p [question] of
       Inl e \<Rightarrow> (Inl e, [EmbedCall [question]])
     | Inr None \<Rightarrow> (Inr (diagnostic ''Error generating query embedding.''), [EmbedCall [question]])
     | Inr (Some []) \<Rightarrow>
         (Inr (diagnostic ''Error generating query embedding.''), [EmbedCall [question]])
     | Inr (Some (query_embedding # _)) \<Rightarrow>
         (let log1 = [EmbedCall [question], SearchCall query_embedding (top_k p)] in
          case search p query_embedding (top_k p) of
            Inl e \<Rightarrow> (Inl e, log1)
          | Inr [] \<Rightarrow>
              (Inr (diagnostic
                 ''No relevant documents found in the knowledge base. Please upload and process PDFs first.''),
               log1)
          | Inr (r # rs) \<Rightarrow>
              (case assemble 1 (r # rs) of
                 Inl e \<Rightarrow> (Inl e, log1)
               | Inr (context_parts, srcs) \<Rightarrow>
                   (let context = join [CHR 0x0A, CHR 0x0A] context_parts;
                        log2 = log1 @ [GenerateCall question context max_tokens] in
                    case generate_answer p question context max_tokens of
                      Inl e \<Rightarrow> (Inl e, log2)
                    | Inr None \<Rightarrow>
                        (Inr \<lparr>answer = ''Error generating answer. Please try again.'',
                              sources = srcs, result_metadata = []\<rparr>, log2)
                    | Inr (Some a) \<Rightarrow>
                        (if a = [] then
                           (Inr \<lparr>answer = ''Error generating answer. Please try again.'',
                                 sources = srcs, result_metadata = []\<rparr>, log2)
                         else
                           (Inr \<lparr>answer = a, sources = srcs,
                                 result_metadata =
                                   [(''num_sources'', int (length srcs)), (''top_k'', top_k p)]\<rparr>,
                            log2))))))"

text \<open>\<open>RAGPipeline.query\<close>: the validation of the question, then the \<open>try\<close> block with
  its \<open>except Exception\<close> handler.\<close>

definition query ::
  "pipeline \<Rightarrow> string \<Rightarrow> int \<Rightarrow> (py_exception + query_result) \<times> call list" where
  "query p question max_tokens =
    (if blank question then (Inr (diagnostic ''Please provide a valid question.''), [])
     else case query_try p question max_tokens of
            (Inl e, calls) \<Rightarrow> (Inr (diagnostic (''An error occurred: '' @ message e)), calls)
          | (Inr r, calls) \<Rightarrow> (Inr r, calls))"

text \<open>\<open>RAGPipeline.add_documents_to_knowledge_base\<close>: the ids continue from the size of the
  collection. Every exception of the body gives \<open>False\<close>.\<close>

definition add_documents_to_knowledge_base ::
  "pipeline \<Rightarrow> string list \<Rightarrow> chunk_metadata list option \<Rightarrow> bool \<times> call list" where
  "add_documents_to_knowledge_base p texts metadatas =
    (case generate_embeddings p texts of
       Inl e \<Rightarrow> (False, [EmbedCall texts])
     | Inr None \<Rightarrow> (False, [EmbedCall texts])
     | Inr (Some []) \<Rightarrow> (False, [EmbedCall texts])
     | Inr (Some (v # rest)) \<Rightarrow>
         (case store_count p of
            Inl e \<Rightarrow> (False, [EmbedCall texts, CountCall])
          | Inr existing_count \<Rightarrow>
              (let ids = map (\<lambda>i. ''doc_'' @ str_nat (existing_count + i)) [0..<length texts];
                   calls = [EmbedCall texts, CountCall,
                            AddDocumentsCall texts (v # rest) metadatas (Some ids)]
               in case store_add p texts (v # rest) metadatas (Some ids) of
                    Inl e \<Rightarrow> (False, calls)
                  | Inr success \<Rightarrow> (success, calls))))"

section \<open>The answer provider (llm\_handler.py)\<close>








definition openai_prompt :: "string \<Rightarrow> string \<Rightarrow> string" where
  "openai_prompt question context =
     ''Based on the following context, answer the question. '' @ [CHR 0x0A] @
     ''If the answer is not in the context, say \"I don't have enough information to answer this question based on the provided context.\"'' @
     [CHR 0x0A, CHR 0x0A] @
     ''Context:'' @ [CHR 0x0A] @ context @ [CHR 0x0A, CHR 0x0A] @
     ''Question: '' @ question @ [CHR 0x0A, CHR 0x0A] @
     ''Answer:''"

definition local_prompt :: "string \<Rightarrow> string \<Rightarrow> string" where
  "local_prompt question context =
     ''Based on the following context, answer the question.'' @ [CHR 0x0A, CHR 0x0A] @
     ''Context:'' @ [CHR 0x0A] @ context @ [CHR 0x0A, CHR 0x0A] @
     ''Question: '' @ question @ [CHR 0x0A, CHR 0x0A] @
     ''Answer:''"







text \<open>The instruction text of a prompt: what stands before the context block.\<close>

fun before_first :: "string \<Rightarrow> string \<Rightarrow> string" where
  "before_first sep [] = []"
| "before_first sep (c # cs) = (if prefix sep (c # cs) then [] else c # before_first sep cs)"

definition instruction_text :: "string \<Rightarrow> string" where
  "instruction_text prompt = before_first ''Context:'' prompt"

definition refusal_phrase :: string where
  "refusal_phrase = ''I don't have enough information to answer this question based on the provided context.''"

definition shared_directive :: string where
  "shared_directive = ''Based on the following context, answer the question.''"

definition refusal_directive :: string where
  "refusal_directive = ''If the answer is not in the context, say \"'' @ refusal_phrase @ ''\"''"

definition context_block :: "string \<Rightarrow> string \<Rightarrow> string" where
  "context_block question context =
     [CHR 0x0A, CHR 0x0A] @ ''Context:'' @ [CHR 0x0A] @ context @ [CHR 0x0A, CHR 0x0A] @
     ''Question: '' @ question @ [CHR 0x0A, CHR 0x0A] @ ''Answer:''"

section \<open>The vector store (vectorstore.py)\<close>

text \<open>
  ChromaDB is an external library. Its client is modelled by the collections it holds, by
  name; a collection by its similarity space and its records. A collection handle is the name
  it was obtained for. Deleting a collection that does not exist raises, as does using the
  handle of a collection that is gone. What \<open>collection.add\<close> does with the request (ids
  already stored, repeated ids) depends on the library and is a parameter.
\<close>

record stored_record =
  rec_id :: string
  rec_embedding :: embedding
  rec_document :: string
  rec_metadata :: chunk_metadata

record chroma_collection =
  space :: string
  records :: "stored_record list"

type_synonym chroma_client = "string \<rightharpoonup> chroma_collection"

record add_request =
  add_embeddings :: "embedding list"
  add_texts :: "string list"
  add_metadatas :: "chunk_metadata list"
  add_ids :: "string list"

type_synonym collection_add = "chroma_collection \<Rightarrow> add_request \<Rightarrow> py_exception + chroma_collection"

datatype chroma_call = CollectionAdd add_request

definition missing_collection :: "string \<Rightarrow> py_exception" where
  "missing_collection name = PyException (''Collection '' @ name @ '' does not exist.'')"


definition get_or_create_collection :: "chroma_client \<Rightarrow> string \<Rightarrow> string \<Rightarrow> chroma_client" where
  "get_or_create_collection c name sp =
    (case c name of None \<Rightarrow> c(name \<mapsto> \<lparr>space = sp, records = []\<rparr>) | Some col \<Rightarrow> c)"

definition collection_count :: "chroma_client \<Rightarrow> string \<Rightarrow> py_exception + nat" where
  "collection_count c handle =
    (case c handle of None \<Rightarrow> Inl (missing_collection handle) | Some col \<Rightarrow> Inr (length (records col)))"

record vector_store =
  persist_directory :: string
  collection_name :: string
  client :: chroma_client
  collection :: "string option"

text \<open>\<open>VectorStore.__init__\<close> on the persisted state found in the directory.\<close>

definition vector_store_init :: "string \<Rightarrow> string \<Rightarrow> chroma_client \<Rightarrow> vector_store" where
  "vector_store_init dir name persisted =
    \<lparr>persist_directory = dir, collection_name = name,
     client = get_or_create_collection persisted name ''cosine'',
     collection = Some name\<rparr>"

text \<open>\<open>VectorStore.add_documents\<close>: the result, the store afterwards and the calls made on
  the collection.\<close>

definition add_documents ::
  "collection_add \<Rightarrow> vector_store \<Rightarrow> string list \<Rightarrow> embedding list \<Rightarrow>
   chunk_metadata list option \<Rightarrow> string list option \<Rightarrow> bool \<times> vector_store \<times> chroma_call list" where
  "add_documents add vs texts embeddings metadatas ids =
    (if texts = [] \<or> embeddings = [] then (False, vs, [])
     else if length texts \<noteq> length embeddings then (False, vs, [])
     else
       let ids' = (case ids of None \<Rightarrow> map (\<lambda>i. ''doc_'' @ str_nat i) [0..<length texts] | Some given \<Rightarrow> given);
           metadatas' = (case metadatas of None \<Rightarrow> map (\<lambda>text. [(''text'', take 100 text)]) texts | Some given \<Rightarrow> given);
           request = \<lparr>add_embeddings = embeddings, add_texts = texts,
                      add_metadatas = metadatas', add_ids = ids'\<rparr>
       in case collection vs of
            None \<Rightarrow> (False, vs, [])
          | Some handle \<Rightarrow>
              (case client vs handle of
                 None \<Rightarrow> (False, vs, [CollectionAdd request])
               | Some col \<Rightarrow>
                   (case add col request of
                      Inl e \<Rightarrow> (False, vs, [CollectionAdd request])
                    | Inr col' \<Rightarrow>
                        (True, vs\<lparr>client := (client vs)(handle \<mapsto> col')\<rparr>,
                         [CollectionAdd request]))))"

definition get_collection_count :: "vector_store \<Rightarrow> nat" where
  "get_collection_count vs =
    (case collection vs of
       None \<Rightarrow> 0
     | Some handle \<Rightarrow> (case collection_count (client vs) handle of Inl e \<Rightarrow> 0 | Inr n \<Rightarrow> n))"


section \<open>Example objects\<close>

definition unit_embedder :: "string list \<Rightarrow> py_exception + embedding list option" where
  "unit_embedder texts = Inr (Some (map (\<lambda>t. [1, 0]) texts))"

definition paris_results :: "search_result list" where
  "paris_results =
    [\<lparr>document = Val ''Paris is the capital of France.'', distance = Val (1/4),
      metadata = Val [(''source'', ''uploaded_pdf'')], rid = Val ''doc_0''\<rparr>,
     \<lparr>document = Val (replicate 250 (CHR ''a'')), distance = PyNone,
      metadata = Missing, rid = Val ''doc_1''\<rparr>]"


definition const_search :: "search_result list \<Rightarrow> embedding \<Rightarrow> int \<Rightarrow> py_exception + search_result list" where
  "const_search rs v k = Inr rs"

definition const_answer :: "string \<Rightarrow> string \<Rightarrow> string \<Rightarrow> int \<Rightarrow> py_exception + string option" where
  "const_answer a q c m = Inr (Some a)"

definition accepting_add ::
  "string list \<Rightarrow> embedding list \<Rightarrow> chunk_metadata list option \<Rightarrow> string list option \<Rightarrow>
   py_exception + bool" where
  "accepting_add texts embeddings metadatas ids = Inr True"

definition paris_pipeline :: pipeline where
  "paris_pipeline = \<lparr>generate_embeddings = unit_embedder, search = const_search paris_results,
     generate_answer = const_answer ''Paris.'', store_count = Inr 0, store_add = accepting_add, top_k = 5\<rparr>"


definition empty_pipeline :: pipeline where
  "empty_pipeline = \<lparr>generate_embeddings = unit_embedder, search = const_search [],
     generate_answer = const_answer ''Paris.'', store_count = Inr 0, store_add = accepting_add, top_k = 5\<rparr>"

definition paris_context :: string where
  "paris_context = ''[Source 1] Paris is the capital of France.'' @ [CHR 0x0A, CHR 0x0A] @
     ''[Source 2] '' @ replicate 250 (CHR ''a'')"

definition paris_parts :: "string list" where
  "paris_parts = [''[Source 1] Paris is the capital of France.'',
                  ''[Source 2] '' @ replicate 250 (CHR ''a'')]"

definition capital_question :: string where
  "capital_question = ''What is the capital of France?''"

definition paris_answer :: query_result where
  "paris_answer =
    \<lparr>answer = ''Paris.'',
     sources = [\<lparr>passage_text = ''Paris is the capital of France.'', similarity = 3/4,
                 src_metadata = Some [(''source'', ''uploaded_pdf'')]\<rparr>,
                \<lparr>passage_text = replicate 200 (CHR ''a'') @ ''...'', similarity = 0,
                 src_metadata = Some []\<rparr>],
     result_metadata = [(''num_sources'', 2), (''top_k'', 5)]\<rparr>"

definition paris_calls :: "call list" where
  "paris_calls =
     [EmbedCall [capital_question], SearchCall [1, 0] 5,
      GenerateCall capital_question paris_context 500]"

definition raising :: "string \<Rightarrow> py_exception + 'a" where
  "raising msg = Inl (PyException msg)"

definition embed_down_pipeline :: pipeline where
  "embed_down_pipeline = \<lparr>generate_embeddings = (\<lambda>texts. raising ''embedding service down''),
     search = const_search paris_results, generate_answer = const_answer ''Paris.'', store_count = Inr 0, store_add = accepting_add, top_k = 5\<rparr>"

definition search_down_pipeline :: pipeline where
  "search_down_pipeline = \<lparr>generate_embeddings = unit_embedder,
     search = (\<lambda>v k. raising ''index unreachable''),
     generate_answer = const_answer ''Paris.'', store_count = Inr 0, store_add = accepting_add, top_k = 5\<rparr>"

definition answer_down_pipeline :: pipeline where
  "answer_down_pipeline = \<lparr>generate_embeddings = unit_embedder,
     search = const_search paris_results,
     generate_answer = (\<lambda>q c m. raising ''rate limit exceeded''), store_count = Inr 0, store_add = accepting_add, top_k = 5\<rparr>"





text \<open>A collection.add that appends the records of the request.\<close>

definition request_records :: "add_request \<Rightarrow> stored_record list" where
  "request_records r =
     map (\<lambda>(i, e, d, m). \<lparr>rec_id = i, rec_embedding = e, rec_document = d, rec_metadata = m\<rparr>)
       (zip (add_ids r) (zip (add_embeddings r) (zip (add_texts r) (add_metadatas r))))"

definition appending_add :: collection_add where
  "appending_add col r = Inr (col\<lparr>records := records col @ request_records r\<rparr>)"

definition capitals :: "string list" where
  "capitals = [''Paris is the capital of France.'', ''Tokyo is the capital of Japan.'']"

definition capitals_store :: vector_store where
  "capitals_store =
     fst (snd (add_documents appending_add (vector_store_init ''./vectorstore'' ''smartbookqa'' Map.empty)
       capitals [[1, 0], [0, 1]] None None))"

text \<open>A pipeline whose vector store is a concrete store.\<close>

definition store_pipeline :: "collection_add \<Rightarrow> vector_store \<Rightarrow> pipeline" where
  "store_pipeline add vs =
     \<lparr>generate_embeddings = unit_embedder, search = const_search [],
      generate_answer = const_answer ''Paris.'',
      store_count = Inr (get_collection_count vs),
      store_add = (\<lambda>texts embeddings metadatas ids.
                     Inr (fst (add_documents add vs texts embeddings metadatas ids))),
      top_k = 5\<rparr>"

definition more_capitals :: "string list" where
  "more_capitals = [''Rome is the capital of Italy.'', ''Oslo is the capital of Norway.'']"

section \<open>Properties\<close>

lemma strip_empty_iff: "strip s = [] \<longleftrightarrow> (\<forall>c\<in>set s. isspace c)"
proof
  assume "strip s = []"
  then have "\<forall>c\<in>set (dropWhile isspace s). isspace c"
    by (simp add: strip_def dropWhile_eq_Nil_conv)
  then have "dropWhile isspace s = []"
    by (metis hd_dropWhile hd_in_set)
  then show "\<forall>c\<in>set s. isspace c"
    by (simp add: dropWhile_eq_Nil_conv)
next
  assume "\<forall>c\<in>set s. isspace c"
  then have d: "dropWhile isspace s = []"
    by (induction s) simp_all
  show "strip s = []"
    unfolding strip_def d by simp
qed

lemma blank_iff: "blank q \<longleftrightarrow> (\<forall>c\<in>set q. isspace c)"
  by (auto simp: blank_def strip_empty_iff)







lemma assemble_sources:
  "assemble i rs = Inr (parts, srcs) \<Longrightarrow>
     length srcs = length rs \<and> length parts = length rs \<and>
     (\<forall>k<length rs. build_source (i + k) (rs ! k) = Inr (parts ! k, srcs ! k))"
proof (induction rs arbitrary: i parts srcs)
  case Nil
  then show ?case by simp
next
  case (Cons r rs)
  from Cons.prems obtain part src parts' srcs' where
    b: "build_source i r = Inr (part, src)" and
    a: "assemble (Suc i) rs = Inr (parts', srcs')" and
    e: "parts = part # parts'" "srcs = src # srcs'"
    by (auto split: sum.splits prod.splits)
  from Cons.IH [OF a] have ih: "length srcs' = length rs" "length parts' = length rs"
    "\<forall>k<length rs. build_source (Suc i + k) (rs ! k) = Inr (parts' ! k, srcs' ! k)"
    by auto
  show ?case
  proof (intro conjI allI impI)
    fix k assume "k < length (r # rs)"
    then show "build_source (i + k) ((r # rs) ! k) = Inr (parts ! k, srcs ! k)"
      using b ih(3) e by (cases k) auto
  qed (use ih e in auto)
qed

lemma query_try_cases:
  "query_try p q mt = (out, calls) \<Longrightarrow>
    (calls = [EmbedCall [q]] \<and>
       ((\<exists>e. generate_embeddings p [q] = Inl e \<and> out = Inl e) \<or>
        ((generate_embeddings p [q] = Inr None \<or> generate_embeddings p [q] = Inr (Some [])) \<and>
          out = Inr (diagnostic ''Error generating query embedding.'')))) \<or>
    (\<exists>v vs. generate_embeddings p [q] = Inr (Some (v # vs)) \<and>
       ((calls = [EmbedCall [q], SearchCall v (top_k p)] \<and>
          ((\<exists>e. search p v (top_k p) = Inl e \<and> out = Inl e) \<or>
           (search p v (top_k p) = Inr [] \<and>
              out = Inr (diagnostic ''No relevant documents found in the knowledge base. Please upload and process PDFs first.'')) \<or>
           (\<exists>rs e. search p v (top_k p) = Inr rs \<and> rs \<noteq> [] \<and> assemble 1 rs = Inl e \<and> out = Inl e))) \<or>
        (\<exists>rs parts srcs. search p v (top_k p) = Inr rs \<and> rs \<noteq> [] \<and>
            assemble 1 rs = Inr (parts, srcs) \<and>
            calls = [EmbedCall [q], SearchCall v (top_k p),
                     GenerateCall q (join [CHR 0x0A, CHR 0x0A] parts) mt] \<and>
            ((\<exists>e. generate_answer p q (join [CHR 0x0A, CHR 0x0A] parts) mt = Inl e \<and> out = Inl e) \<or>
             ((generate_answer p q (join [CHR 0x0A, CHR 0x0A] parts) mt = Inr None \<or>
               generate_answer p q (join [CHR 0x0A, CHR 0x0A] parts) mt = Inr (Some [])) \<and>
               out = Inr \<lparr>answer = ''Error generating answer. Please try again.'',
                           sources = srcs, result_metadata = []\<rparr>) \<or>
             (\<exists>a. generate_answer p q (join [CHR 0x0A, CHR 0x0A] parts) mt = Inr (Some a) \<and> a \<noteq> [] \<and>
               out = Inr \<lparr>answer = a, sources = srcs,
                           result_metadata = [(''num_sources'', int (length srcs)), (''top_k'', top_k p)]\<rparr>)))))"
  unfolding query_try_def
  by (auto simp: Let_def split: sum.splits option.splits list.splits if_splits)

lemma query_cases:
  "query p q mt = (out, calls) \<Longrightarrow>
     (blank q \<and> out = Inr (diagnostic ''Please provide a valid question.'') \<and> calls = []) \<or>
     (\<not> blank q \<and> (\<exists>e. query_try p q mt = (Inl e, calls) \<and>
         out = Inr (diagnostic (''An error occurred: '' @ message e)))) \<or>
     (\<not> blank q \<and> (\<exists>r. query_try p q mt = (Inr r, calls) \<and> out = Inr r))"
  unfolding query_def by (auto split: if_splits sum.splits prod.splits)

text \<open>Claim C1. \<open>query\<close> never raises: for every question and every behaviour of the
  collaborators it returns a result. An exception raised in the body of its \<open>try\<close> block
  is turned into the result whose answer is \<open>An error occurred:\<close> followed by the
  exception's message, with no sources; and the body raises whenever the embedding provider,
  the vector store, the assembly of the sources or the answer provider does.\<close>

theorem query_never_raises:
  "(\<exists>r. fst (query p q mt) = Inr r) \<and>
   (\<not> blank q \<longrightarrow> fst (query_try p q mt) = Inl e \<longrightarrow>
      fst (query p q mt) =
        Inr \<lparr>answer = ''An error occurred: '' @ message e, sources = [], result_metadata = []\<rparr>) \<and>
   (generate_embeddings p [q] = Inl e \<longrightarrow> fst (query_try p q mt) = Inl e) \<and>
   (generate_embeddings p [q] = Inr (Some (v # vs)) \<longrightarrow> search p v (top_k p) = Inl e \<longrightarrow>
      fst (query_try p q mt) = Inl e) \<and>
   (generate_embeddings p [q] = Inr (Some (v # vs)) \<longrightarrow> search p v (top_k p) = Inr (r # rs) \<longrightarrow>
      assemble 1 (r # rs) = Inl e \<longrightarrow> fst (query_try p q mt) = Inl e) \<and>
   (generate_embeddings p [q] = Inr (Some (v # vs)) \<longrightarrow> search p v (top_k p) = Inr (r # rs) \<longrightarrow>
      assemble 1 (r # rs) = Inr (parts, srcs) \<longrightarrow>
      generate_answer p q (join [CHR 0x0A, CHR 0x0A] parts) mt = Inl e \<longrightarrow>
      fst (query_try p q mt) = Inl e)"
proof (intro conjI impI)
  show "\<exists>r. fst (query p q mt) = Inr r"
    unfolding query_def by (cases "query_try p q mt"; cases "fst (query_try p q mt)") auto
next
  assume "\<not> blank q" "fst (query_try p q mt) = Inl e"
  then show "fst (query p q mt) =
        Inr \<lparr>answer = ''An error occurred: '' @ message e, sources = [], result_metadata = []\<rparr>"
    unfolding query_def diagnostic_def by (cases "query_try p q mt") auto
qed (simp_all add: query_try_def Let_def)

text \<open>Claim C1 at three pipelines, one for each collaborator raising.\<close>

theorem query_never_raises_witness:
  "\<not> blank capital_question \<and>
   generate_embeddings embed_down_pipeline [capital_question]
     = Inl (PyException ''embedding service down'') \<and>
   fst (query embed_down_pipeline capital_question 500)
     = Inr \<lparr>answer = ''An error occurred: embedding service down'', sources = [],
            result_metadata = []\<rparr> \<and>
   generate_embeddings search_down_pipeline [capital_question] = Inr (Some [[1, 0]]) \<and>
   search search_down_pipeline [1, 0] (top_k search_down_pipeline)
     = Inl (PyException ''index unreachable'') \<and>
   fst (query search_down_pipeline capital_question 500)
     = Inr \<lparr>answer = ''An error occurred: index unreachable'', sources = [],
            result_metadata = []\<rparr> \<and>
   generate_embeddings answer_down_pipeline [capital_question] = Inr (Some [[1, 0]]) \<and>
   search answer_down_pipeline [1, 0] (top_k answer_down_pipeline) = Inr paris_results \<and>
   assemble 1 paris_results = Inr (paris_parts, sources paris_answer) \<and>
   generate_answer answer_down_pipeline capital_question
       (join [CHR 0x0A, CHR 0x0A] paris_parts) 500
     = Inl (PyException ''rate limit exceeded'') \<and>
   fst (query answer_down_pipeline capital_question 500)
     = Inr \<lparr>answer = ''An error occurred: rate limit exceeded'', sources = [],
            result_metadata = []\<rparr>"
proof -
  have b: "\<not> blank capital_question" by code_simp
  have e1: "generate_embeddings embed_down_pipeline [capital_question]
     = Inl (PyException ''embedding service down'')"
    by (simp add: embed_down_pipeline_def raising_def)
  have e2: "generate_embeddings search_down_pipeline [capital_question] = Inr (Some [[1, 0]])"
    "search search_down_pipeline [1, 0] (top_k search_down_pipeline)
       = Inl (PyException ''index unreachable'')"
    by (simp_all add: search_down_pipeline_def unit_embedder_def raising_def)
  have e3: "generate_embeddings answer_down_pipeline [capital_question] = Inr (Some [[1, 0]])"
    "search answer_down_pipeline [1, 0] (top_k answer_down_pipeline) = Inr paris_results"
    "generate_answer answer_down_pipeline capital_question
       (join [CHR 0x0A, CHR 0x0A] paris_parts) 500 = Inl (PyException ''rate limit exceeded'')"
    by (simp_all add: answer_down_pipeline_def unit_embedder_def const_search_def raising_def)
  have a: "assemble 1 paris_results = Inr (paris_parts, sources paris_answer)"
    by code_simp
  obtain r rs where rs: "paris_results = r # rs"
    by (auto simp: paris_results_def)
  note t1 = query_never_raises [where p = embed_down_pipeline and q = capital_question
      and mt = 500 and e = "PyException ''embedding service down''"]
  note t2 = query_never_raises [where p = search_down_pipeline and q = capital_question
      and mt = 500 and e = "PyException ''index unreachable''" and v = "[1, 0]" and vs = "[]"]
  note t3 = query_never_raises [where p = answer_down_pipeline and q = capital_question
      and mt = 500 and e = "PyException ''rate limit exceeded''" and v = "[1, 0]" and vs = "[]"
      and r = r and rs = rs and parts = paris_parts and srcs = "sources paris_answer"]
  have q1: "fst (query embed_down_pipeline capital_question 500)
     = Inr \<lparr>answer = ''An error occurred: embedding service down'', sources = [],
            result_metadata = []\<rparr>"
    using t1 b e1 by simp
  have q2: "fst (query search_down_pipeline capital_question 500)
     = Inr \<lparr>answer = ''An error occurred: index unreachable'', sources = [],
            result_metadata = []\<rparr>"
    using t2 b e2 by simp
  have q3: "fst (query answer_down_pipeline capital_question 500)
     = Inr \<lparr>answer = ''An error occurred: rate limit exceeded'', sources = [],
            result_metadata = []\<rparr>"
    using t3 b e3 a rs by simp
  show ?thesis using b e1 e2 e3 a q1 q2 q3 by simp
qed

text \<open>Claim C2. If the query called the vector store's search and that call returned the empty
  list, the result is the fixed message asking to upload documents, with no sources, and
  the answer provider was not called.\<close>

theorem empty_search_no_documents:
  assumes "query p q mt = (out, calls)"
    and "SearchCall v k \<in> set calls"
    and "search p v k = Inr []"
  shows "out = Inr \<lparr>answer = ''No relevant documents found in the knowledge base. Please upload and process PDFs first.'',
                    sources = [], result_metadata = []\<rparr> \<and>
         (\<forall>c\<in>set calls. \<not> is_generate_call c)"
proof -
  from query_cases [OF assms(1)] assms(2)
  consider e where "query_try p q mt = (Inl e, calls)"
      "out = Inr (diagnostic (''An error occurred: '' @ message e))"
    | r where "query_try p q mt = (Inr r, calls)" "out = Inr r"
    by auto
  then show ?thesis
  proof cases
    case 1
    from query_try_cases [OF 1(1)] assms(2,3) show ?thesis by auto
  next
    case 2
    from query_try_cases [OF 2(1)] assms(2,3) 2(2) show ?thesis
      by (auto simp: diagnostic_def)
  qed
qed

text \<open>Claim C2 at a pipeline whose index is empty.\<close>

theorem empty_search_no_documents_witness:
  "query empty_pipeline ''What is the capital of France?'' 500 =
     (Inr \<lparr>answer = ''No relevant documents found in the knowledge base. Please upload and process PDFs first.'',
           sources = [], result_metadata = []\<rparr>,
      [EmbedCall [''What is the capital of France?''], SearchCall [1, 0] 5]) \<and>
   search empty_pipeline [1, 0] 5 = Inr [] \<and>
   \<not> is_generate_call (EmbedCall [''What is the capital of France?'']) \<and>
   \<not> is_generate_call (SearchCall [1, 0] 5)"
proof -
  have q: "query empty_pipeline ''What is the capital of France?'' 500 =
     (Inr \<lparr>answer = ''No relevant documents found in the knowledge base. Please upload and process PDFs first.'',
           sources = [], result_metadata = []\<rparr>,
      [EmbedCall [''What is the capital of France?''], SearchCall [1, 0] 5])"
    by code_simp
  have s: "search empty_pipeline [1, 0] 5 = Inr []"
    by (simp add: empty_pipeline_def const_search_def)
  have m: "SearchCall [1, 0] 5 \<in> set [EmbedCall [''What is the capital of France?''], SearchCall [1, 0] 5]"
    by simp
  from empty_search_no_documents [OF q m s] q s show ?thesis by simp
qed

text \<open>Claim C3. For a question that is empty or made of whitespace only, \<open>query\<close> returns the
  fixed validation message with no sources and calls none of its collaborators.\<close>

theorem blank_question_validation:
  "\<forall>c\<in>set q. isspace c \<Longrightarrow>
     query p q mt =
       (Inr \<lparr>answer = ''Please provide a valid question.'', sources = [], result_metadata = []\<rparr>,
        [])"
  by (simp add: query_def blank_iff diagnostic_def)

text \<open>Claim C3 at the empty question and at a question of a space, a tab and a newline.\<close>

theorem blank_question_validation_witness:
  "isspace (CHR '' '') \<and> isspace (CHR 0x09) \<and> isspace (CHR 0x0A) \<and>
   query paris_pipeline [CHR '' '', CHR 0x09, CHR 0x0A] 500 =
     (Inr \<lparr>answer = ''Please provide a valid question.'', sources = [], result_metadata = []\<rparr>,
      []) \<and>
   query paris_pipeline [] 500 =
     (Inr \<lparr>answer = ''Please provide a valid question.'', sources = [], result_metadata = []\<rparr>,
      [])"
proof -
  have h: "\<forall>c\<in>set [CHR '' '', CHR 0x09, CHR 0x0A]. isspace c"
    by (simp add: isspace_def)
  have h0: "\<forall>c\<in>set ([]::string). isspace c" by simp
  from blank_question_validation [OF h, of paris_pipeline 500]
       blank_question_validation [OF h0, of paris_pipeline 500] h
  show ?thesis by simp
qed

lemma query_sources:
  assumes "query p q mt = (Inr res, calls)"
    and "SearchCall v k \<in> set calls"
    and "search p v k = Inr rs"
    and "sources res \<noteq> []"
  shows "\<exists>parts. assemble 1 rs = Inr (parts, sources res)"
proof -
  from query_cases [OF assms(1)] assms(2,4)
  consider e where "query_try p q mt = (Inl e, calls)"
      "res = diagnostic (''An error occurred: '' @ message e)"
    | "query_try p q mt = (Inr res, calls)"
    by (auto simp: diagnostic_def)
  then show ?thesis
  proof cases
    case 1
    then show ?thesis using assms(4) by (simp add: diagnostic_def)
  next
    case 2
    from query_try_cases [OF 2] assms(2,3,4) show ?thesis
      by (auto simp: diagnostic_def)
  qed
qed

lemma query_source_built:
  assumes "query p q mt = (Inr res, calls)"
    and "SearchCall v k \<in> set calls"
    and "search p v k = Inr rs"
    and "sources res \<noteq> []"
  shows "length (sources res) = length rs \<and>
         (\<forall>i<length rs. \<exists>part. build_source (Suc i) (rs ! i) = Inr (part, sources res ! i))"
proof -
  from query_sources [OF assms] obtain parts where "assemble 1 rs = Inr (parts, sources res)"
    by blast
  from assemble_sources [OF this] show ?thesis by auto
qed


lemma build_source_text:
  "build_source i r = Inr (part, src) \<Longrightarrow> document r = Val d \<Longrightarrow>
     passage_text src = (if 200 < length d then take 200 d @ ''...'' else d)"
  by (auto simp: build_source_def Let_def split: option.splits)


text \<open>Claim C5. The text of a source is the whole document when the document has at most 200
  characters, and its first 200 characters followed by three dots when it has more.\<close>

theorem source_text_truncation:
  assumes "query p q mt = (Inr res, calls)"
    and "SearchCall v k \<in> set calls"
    and "search p v k = Inr rs"
    and "sources res \<noteq> []"
    and "i < length rs"
    and "document (rs ! i) = Val d"
  shows "(length d \<le> 200 \<longrightarrow> passage_text (sources res ! i) = d) \<and>
         (200 < length d \<longrightarrow> passage_text (sources res ! i) = take 200 d @ ''...'')"
proof -
  from query_source_built [OF assms(1-4)] assms(5) obtain part where
    b: "build_source (Suc i) (rs ! i) = Inr (part, sources res ! i)" by blast
  from build_source_text [OF b assms(6)] show ?thesis by simp
qed

text \<open>Claim C6, as the code has it. The metadata of a result is exactly \<open>num_sources\<close>, the
  number of returned sources, and \<open>top_k\<close>, the configured value, when the answer provider
  returned a non-empty answer, which is then the answer of the result; on every other
  return the metadata is empty.\<close>

theorem result_metadata_keys:
  assumes "query p q mt = (Inr res, calls)"
  shows "(result_metadata res = [(''num_sources'', int (length (sources res))), (''top_k'', top_k p)] \<and>
          answer res \<noteq> [] \<and>
          (\<exists>ctx. GenerateCall q ctx mt \<in> set calls \<and>
                 generate_answer p q ctx mt = Inr (Some (answer res)))) \<or>
         (result_metadata res = [] \<and>
          \<not> (\<exists>ctx a. GenerateCall q ctx mt \<in> set calls \<and>
                 generate_answer p q ctx mt = Inr (Some a) \<and> a \<noteq> []))"
proof -
  from query_cases [OF assms]
  consider "blank q" "res = diagnostic ''Please provide a valid question.''" "calls = []"
    | e where "query_try p q mt = (Inl e, calls)"
      "res = diagnostic (''An error occurred: '' @ message e)"
    | "query_try p q mt = (Inr res, calls)"
    by auto
  then show ?thesis
  proof cases
    case 1
    then show ?thesis by (simp add: diagnostic_def)
  next
    case 2
    from query_try_cases [OF 2(1)] 2(2) show ?thesis
      by (auto simp: diagnostic_def)
  next
    case 3
    from query_try_cases [OF 3] show ?thesis
      by (auto simp: diagnostic_def)
  qed
qed

lemma paris_query: "query paris_pipeline capital_question 500 = (Inr paris_answer, paris_calls)"
  by code_simp

lemma paris_search: "search paris_pipeline [1, 0] 5 = Inr paris_results"
  by (simp add: paris_pipeline_def const_search_def)

lemma paris_called: "SearchCall [1, 0] 5 \<in> set paris_calls"
  by (simp add: paris_calls_def)

lemma paris_sources: "sources paris_answer \<noteq> []"
  by (simp add: paris_answer_def)




text \<open>Claim C5 at a document of 31 characters and a document of 250 characters.\<close>

theorem source_text_truncation_witness:
  "query paris_pipeline capital_question 500 = (Inr paris_answer, paris_calls) \<and>
   SearchCall [1, 0] 5 \<in> set paris_calls \<and>
   search paris_pipeline [1, 0] 5 = Inr paris_results \<and>
   sources paris_answer \<noteq> [] \<and>
   document (paris_results ! 0) = Val ''Paris is the capital of France.'' \<and>
   length ''Paris is the capital of France.'' \<le> 200 \<and>
   passage_text (sources paris_answer ! 0) = ''Paris is the capital of France.'' \<and>
   document (paris_results ! 1) = Val (replicate 250 (CHR ''a'')) \<and>
   200 < length (replicate 250 (CHR ''a'')) \<and>
   passage_text (sources paris_answer ! 1) = take 200 (replicate 250 (CHR ''a'')) @ ''...''"
proof -
  have i0: "0 < length paris_results" and i1: "1 < length paris_results"
    by (simp_all add: paris_results_def)
  have d0: "document (paris_results ! 0) = Val ''Paris is the capital of France.''"
    and d1: "document (paris_results ! 1) = Val (replicate 250 (CHR ''a''))"
    by (simp_all add: paris_results_def)
  from source_text_truncation [OF paris_query paris_called paris_search paris_sources i0 d0]
       source_text_truncation [OF paris_query paris_called paris_search paris_sources i1 d1]
       paris_query paris_called paris_search paris_sources d0 d1
  show ?thesis by simp
qed

lemma empty_query:
  "query empty_pipeline capital_question 500 =
     (Inr \<lparr>answer = ''No relevant documents found in the knowledge base. Please upload and process PDFs first.'',
           sources = [], result_metadata = []\<rparr>,
      [EmbedCall [capital_question], SearchCall [1, 0] 5])"
  by code_simp

text \<open>Claim C6 as stated fails: with an empty index, and with an empty question, the metadata
  has neither key.\<close>

theorem result_metadata_counterexample:
  "map_of (result_metadata (projr (fst (query empty_pipeline capital_question 500)))) ''num_sources''
     = None \<and>
   map_of (result_metadata (projr (fst (query empty_pipeline capital_question 500)))) ''top_k''
     = None \<and>
   map_of (result_metadata (projr (fst (query paris_pipeline [] 500)))) ''num_sources'' = None"
proof -
  have b: "query paris_pipeline [] 500 = (Inr (diagnostic ''Please provide a valid question.''), [])"
    by (simp add: query_def blank_def)
  show ?thesis unfolding empty_query b by (simp add: diagnostic_def)
qed

text \<open>Claim C6, amended, at a query that is answered and at a query on an empty index.\<close>

theorem result_metadata_keys_witness:
  "query paris_pipeline capital_question 500 = (Inr paris_answer, paris_calls) \<and>
   result_metadata paris_answer =
     [(''num_sources'', int (length (sources paris_answer))), (''top_k'', top_k paris_pipeline)] \<and>
   answer paris_answer \<noteq> [] \<and>
   GenerateCall capital_question paris_context 500 \<in> set paris_calls \<and>
   generate_answer paris_pipeline capital_question paris_context 500
     = Inr (Some (answer paris_answer)) \<and>
   query empty_pipeline capital_question 500 =
     (Inr \<lparr>answer = ''No relevant documents found in the knowledge base. Please upload and process PDFs first.'',
           sources = [], result_metadata = []\<rparr>,
      [EmbedCall [capital_question], SearchCall [1, 0] 5])"
proof -
  have m: "result_metadata paris_answer \<noteq> []" by (simp add: paris_answer_def)
  have g: "GenerateCall capital_question paris_context 500 \<in> set paris_calls"
    by (simp add: paris_calls_def)
  have a: "generate_answer paris_pipeline capital_question paris_context 500
     = Inr (Some (answer paris_answer))"
    by (simp add: paris_pipeline_def const_answer_def paris_answer_def)
  from result_metadata_keys [OF paris_query] m result_metadata_keys [OF empty_query]
       paris_query empty_query g a
  show ?thesis by simp
qed




text \<open>Claim C8, as the code has it. Both prompts open with the same directive and close with the
  same context, question and answer-cue block; the remote prompt alone has, between them, a
  space, a line break and the directive that gives the refusal phrase.\<close>

theorem prompt_instructions:
  "openai_prompt question context =
     shared_directive @ '' '' @ [CHR 0x0A] @ refusal_directive @ context_block question context \<and>
   local_prompt question context = shared_directive @ context_block question context"
  by (simp add: openai_prompt_def local_prompt_def shared_directive_def refusal_directive_def
      refusal_phrase_def context_block_def)

text \<open>Claim C8 as stated fails: the instruction texts of the two prompts differ, and the refusal
  phrase occurs in the remote prompt and not in the local one.\<close>

theorem prompt_instructions_counterexample:
  "instruction_text (openai_prompt ''What is the capital of France?'' ''[Source 1] Paris is the capital of France.'')
     \<noteq> instruction_text (local_prompt ''What is the capital of France?'' ''[Source 1] Paris is the capital of France.'') \<and>
   sublist refusal_phrase (openai_prompt ''What is the capital of France?'' ''[Source 1] Paris is the capital of France.'') \<and>
   \<not> sublist refusal_phrase (local_prompt ''What is the capital of France?'' ''[Source 1] Paris is the capital of France.'')"
  by code_simp

lemma str_nat_inverse: "foldl (\<lambda>a c. 10 * a + (of_char c - 48)) 0 (str_nat n) = n"
proof (induction n rule: str_nat.induct)
  case (1 n)
  show ?case
  proof (cases "n < 10")
    case True
    then show ?thesis by (subst str_nat.simps) (simp add: digit_char_def)
  next
    case False
    have m: "n mod 10 < 10" by simp
    have "of_char (digit_char (n mod 10)) = 48 + n mod 10"
      using m by (simp add: digit_char_def)
    with False 1 show ?thesis by (subst str_nat.simps) simp
  qed
qed

lemma str_nat_inj: "str_nat m = str_nat n \<Longrightarrow> m = n"
  by (metis str_nat_inverse)






lemma capitals_count: "get_collection_count capitals_store = 2"
  by code_simp


lemma doc_ids_disjoint:
  assumes "k \<le> n"
  shows "set (map (\<lambda>i. ''doc_'' @ str_nat i) [0..<k]) \<inter>
         set (map (\<lambda>i. ''doc_'' @ str_nat (n + i)) [0..<k]) = {}"
proof -
  { fix i j assume "i < k" "j < k" "''doc_'' @ str_nat i = ''doc_'' @ str_nat (n + j)"
    then have "str_nat i = str_nat (n + j)" by simp
    then have "i = n + j" by (rule str_nat_inj)
    with \<open>i < k\<close> assms have False by simp }
  then show ?thesis by auto
qed

text \<open>Claim C10. With \<open>ids\<close> omitted, \<open>VectorStore.add_documents\<close> hands the collection the ids
  \<open>doc_0\<close> to \<open>doc_{n-1}\<close>, whatever the store holds and whatever the collection does with
  them, so a second such call uses the same ids again. The pipeline's ingestion passes the
  ids \<open>doc_{count}\<close> to \<open>doc_{count+n-1}\<close>, which differ from all of the former once the
  count is at least \<open>n\<close>.\<close>

theorem default_ids_reused:
  "(texts \<noteq> [] \<longrightarrow> length texts = length embs \<longrightarrow> collection vs = Some handle \<longrightarrow>
      snd (snd (add_documents add vs texts embs metas None)) =
        [CollectionAdd \<lparr>add_embeddings = embs, add_texts = texts,
           add_metadatas =
             (case metas of None \<Rightarrow> map (\<lambda>text. [(''text'', take 100 text)]) texts
              | Some given \<Rightarrow> given),
           add_ids = map (\<lambda>i. ''doc_'' @ str_nat i) [0..<length texts]\<rparr>]) \<and>
   (generate_embeddings p texts = Inr (Some embs) \<longrightarrow> embs \<noteq> [] \<longrightarrow> store_count p = Inr n \<longrightarrow>
      snd (add_documents_to_knowledge_base p texts metas) =
        [EmbedCall texts, CountCall,
         AddDocumentsCall texts embs metas
           (Some (map (\<lambda>i. ''doc_'' @ str_nat (n + i)) [0..<length texts]))]) \<and>
   (length texts \<le> n \<longrightarrow>
      set (map (\<lambda>i. ''doc_'' @ str_nat i) [0..<length texts]) \<inter>
      set (map (\<lambda>i. ''doc_'' @ str_nat (n + i)) [0..<length texts]) = {})"
proof (intro conjI impI)
  assume "texts \<noteq> []" "length texts = length embs" "collection vs = Some handle"
  then show "snd (snd (add_documents add vs texts embs metas None)) =
        [CollectionAdd \<lparr>add_embeddings = embs, add_texts = texts,
           add_metadatas =
             (case metas of None \<Rightarrow> map (\<lambda>text. [(''text'', take 100 text)]) texts
              | Some given \<Rightarrow> given),
           add_ids = map (\<lambda>i. ''doc_'' @ str_nat i) [0..<length texts]\<rparr>]"
    by (cases embs) (auto simp: add_documents_def Let_def split: option.splits sum.splits)
next
  assume "generate_embeddings p texts = Inr (Some embs)" "embs \<noteq> []" "store_count p = Inr n"
  then show "snd (add_documents_to_knowledge_base p texts metas) =
        [EmbedCall texts, CountCall,
         AddDocumentsCall texts embs metas
           (Some (map (\<lambda>i. ''doc_'' @ str_nat (n + i)) [0..<length texts]))]"
    by (cases embs) (auto simp: add_documents_to_knowledge_base_def Let_def split: sum.splits)
next
  assume "length texts \<le> n"
  then show "set (map (\<lambda>i. ''doc_'' @ str_nat i) [0..<length texts]) \<inter>
      set (map (\<lambda>i. ''doc_'' @ str_nat (n + i)) [0..<length texts]) = {}"
    by (rule doc_ids_disjoint)
qed

lemma capitals_handle: "collection capitals_store = Some ''smartbookqa''"
  by code_simp

lemma capitals_stored_ids:
  "map rec_id (records (the (client capitals_store ''smartbookqa''))) = [''doc_0'', ''doc_1'']"
  by code_simp

lemma more_capitals_default_ids:
  "map (\<lambda>i. ''doc_'' @ str_nat i) [0..<length more_capitals] = [''doc_0'', ''doc_1'']"
  by code_simp

lemma more_capitals_ingest_ids:
  "map (\<lambda>i. ''doc_'' @ str_nat (2 + i)) [0..<length more_capitals] = [''doc_2'', ''doc_3'']"
  by code_simp

lemma more_capitals_embedded:
  "generate_embeddings (store_pipeline appending_add capitals_store) more_capitals
     = Inr (Some [[1, 0], [1, 0]])"
  by code_simp

text \<open>Claim C10 at a store that already holds \<open>doc_0\<close> and \<open>doc_1\<close>.\<close>

theorem default_ids_reused_witness:
  "more_capitals \<noteq> [] \<and> length more_capitals = length [[1, 1], [1, 2 :: rat]] \<and>
   collection capitals_store = Some ''smartbookqa'' \<and>
   map rec_id (records (the (client capitals_store ''smartbookqa''))) = [''doc_0'', ''doc_1''] \<and>
   snd (snd (add_documents appending_add capitals_store more_capitals [[1, 1], [1, 2]] None None)) =
     [CollectionAdd \<lparr>add_embeddings = [[1, 1], [1, 2]], add_texts = more_capitals,
        add_metadatas = map (\<lambda>text. [(''text'', take 100 text)]) more_capitals,
        add_ids = [''doc_0'', ''doc_1'']\<rparr>] \<and>
   generate_embeddings (store_pipeline appending_add capitals_store) more_capitals
     = Inr (Some [[1, 0], [1, 0]]) \<and>
   store_count (store_pipeline appending_add capitals_store) = Inr 2 \<and>
   snd (add_documents_to_knowledge_base (store_pipeline appending_add capitals_store)
          more_capitals None) =
     [EmbedCall more_capitals, CountCall,
      AddDocumentsCall more_capitals [[1, 0], [1, 0]] None (Some [''doc_2'', ''doc_3''])] \<and>
   length more_capitals \<le> 2 \<and>
   set [''doc_0'', ''doc_1''] \<inter> set [''doc_2'', ''doc_3''] = {}"
proof -
  have n: "more_capitals \<noteq> []" "length more_capitals = length [[1, 1], [1, 2 :: rat]]"
    "length more_capitals \<le> 2"
    by (simp_all add: more_capitals_def)
  have c: "store_count (store_pipeline appending_add capitals_store) = Inr 2"
    by (simp add: store_pipeline_def capitals_count)
  from default_ids_reused [of more_capitals "[[1, 1], [1, 2]]" capitals_store "''smartbookqa''"
         appending_add None "store_pipeline appending_add capitals_store" 2]
       default_ids_reused [of more_capitals "[[1, 0], [1, 0]]" capitals_store "''smartbookqa''"
         appending_add None "store_pipeline appending_add capitals_store" 2]
       n c capitals_handle capitals_stored_ids more_capitals_embedded
  show ?thesis
    unfolding more_capitals_default_ids more_capitals_ingest_ids by simp
qed

end
